theory Spec2Isabelle
  imports Complex_Main "HOL-Library.Sublist"
begin

section \<open>Strings\<close>

text \<open>
  JavaScript strings are modelled as \<^typ>\<open>string\<close>. \<open>String.prototype.toLowerCase\<close> is
  modelled on the ASCII letters (every other character is left as it is), and
  \<open>String.prototype.includes\<close> (here \<open>includes_str\<close>) as the search for a contiguous occurrence.
\<close>

definition toLowerCaseChar :: "char \<Rightarrow> char" where
  "toLowerCaseChar c =
     (case map_of (zip ''ABCDEFGHIJKLMNOPQRSTUVWXYZ'' ''abcdefghijklmnopqrstuvwxyz'') c of
        Some l \<Rightarrow> l
      | None \<Rightarrow> c)"

definition toLowerCase :: "string \<Rightarrow> string" where
  "toLowerCase s = map toLowerCaseChar s"

fun includes_str :: "string \<Rightarrow> string \<Rightarrow> bool" where
  "includes_str [] t = (t = [])"
| "includes_str (c # cs) t = (prefix t (c # cs) \<or> includes_str cs t)"

section \<open>Data model (interface SpotifyPlaylist of SpotifyService.ts)\<close>

text \<open>
  The nested objects \<open>tracks: {total}\<close> and \<open>followers: {total}\<close> are flattened into
  \<open>tracks_total\<close> and \<open>followers_total\<close>; the latter is optional because the code reads
  it as \<open>playlist.followers?.total\<close>. A falsy string (\<open>!text\<close>) is the empty string.
\<close>

record SpotifyImage =
  url :: string
  height :: int
  width :: int

record SpotifyPlaylist =
  id_pl :: string
  name :: string
  description :: string
  external_urls_spotify :: string
  images :: "SpotifyImage list"
  tracks_total :: int
  followers_total :: "int option"

section \<open>SpotifyService: deduplication and quality filter\<close>

text \<open>
  \<open>removeDuplicatePlaylists\<close>: a \<open>filter\<close> whose callback reads and updates the set
  \<open>seen\<close>. The set is threaded through the traversal explicitly.
\<close>

fun removeDuplicatePlaylists_from :: "string set \<Rightarrow> SpotifyPlaylist list \<Rightarrow> SpotifyPlaylist list" where
  "removeDuplicatePlaylists_from seen [] = []"
| "removeDuplicatePlaylists_from seen (playlist # rest) =
     (if id_pl playlist \<in> seen then removeDuplicatePlaylists_from seen rest
      else playlist # removeDuplicatePlaylists_from (insert (id_pl playlist) seen) rest)"

definition removeDuplicatePlaylists :: "SpotifyPlaylist list \<Rightarrow> SpotifyPlaylist list" where
  "removeDuplicatePlaylists playlists = removeDuplicatePlaylists_from {} playlists"

definition filterPlaylistsByQuality :: "SpotifyPlaylist list \<Rightarrow> SpotifyPlaylist list" where
  "filterPlaylistsByQuality playlists =
     filter (\<lambda>playlist.
         tracks_total playlist \<ge> 15 \<and>
         tracks_total playlist \<le> 200 \<and>
         name playlist \<noteq> [] \<and>
         \<not> includes_str (toLowerCase (name playlist)) ''test'') playlists"

section \<open>SpotifyService: keyword expansion and scoring\<close>

text \<open>
  A property read \<open>table[key]\<close> on an object literal finds the own keys of the literal and,
  failing that, the members inherited from \<open>Object.prototype\<close> (functions, and the
  prototype object itself for \<open>__proto__\<close>); every other key reads as \<open>undefined\<close>. An
  inherited member is truthy and is not an array.
\<close>

definition objectPrototypeKeys :: "string list" where
  "objectPrototypeKeys =
     [''constructor'', ''__defineGetter__'', ''__defineSetter__'', ''hasOwnProperty'',
      ''__lookupGetter__'', ''__lookupSetter__'', ''isPrototypeOf'', ''propertyIsEnumerable'',
      ''toString'', ''valueOf'', ''__proto__'', ''toLocaleString'']"

datatype property = Undefined | Own "string list" | Inherited

definition getProperty :: "(string \<rightharpoonup> string list) \<Rightarrow> string \<Rightarrow> property" where
  "getProperty table key =
     (case table key of
        Some terms \<Rightarrow> Own terms
      | None \<Rightarrow> if key \<in> set objectPrototypeKeys then Inherited else Undefined)"

text \<open>
  The value of an expression \<open>table[key] || [...]\<close>: a list of terms, or an inherited member
  (on which \<open>slice\<close>, \<open>forEach\<close>, \<open>some\<close> and iteration raise a \<open>TypeError\<close>).
\<close>

datatype terms_value = Terms "string list" | NotAnArray

text \<open>
  The object literal \<open>MOOD_TO_SEARCH_TERMS\<close> holds the own keys. \<open>searchTermsOrDefault\<close> is
  the expression \<open>this.MOOD_TO_SEARCH_TERMS[mood] || [mood.toLowerCase()]\<close>, which occurs in
  both \<open>searchPlaylistsByMood\<close> and \<open>calculateNameRelevance\<close> (an array is always truthy).
  \<open>moodSearchTerms\<close> is its list of terms for every mood that does not name an inherited
  member. The private scoring functions use it: they are reached only after
  \<open>searchPlaylistsByMood\<close> has returned candidates, which it never does for a mood that
  names an inherited member.
\<close>

definition MOOD_TO_SEARCH_TERMS :: "string \<rightharpoonup> string list" where
  "MOOD_TO_SEARCH_TERMS = map_of
     [(''Happy'', [''happy'', ''upbeat'', ''cheerful'', ''feel good'', ''positive vibes'']),
      (''Sad'', [''sad'', ''melancholy'', ''heartbreak'', ''emotional'', ''crying'']),
      (''Calm'', [''calm'', ''relaxing'', ''peaceful'', ''chill'', ''ambient'']),
      (''Energetic'', [''energetic'', ''workout'', ''pump up'', ''high energy'', ''motivation'']),
      (''Excited'', [''party'', ''dance'', ''celebration'', ''hype'', ''uplifting'']),
      (''Peaceful'', [''peaceful'', ''meditation'', ''zen'', ''tranquil'', ''serene''])]"

definition searchTermsOrDefault :: "string \<Rightarrow> terms_value" where
  "searchTermsOrDefault mood =
     (case getProperty MOOD_TO_SEARCH_TERMS mood of
        Own terms \<Rightarrow> Terms terms
      | Inherited \<Rightarrow> NotAnArray
      | Undefined \<Rightarrow> Terms [toLowerCase mood])"

definition moodSearchTerms :: "string \<Rightarrow> string list" where
  "moodSearchTerms mood =
     (case MOOD_TO_SEARCH_TERMS mood of Some terms \<Rightarrow> terms | None \<Rightarrow> [toLowerCase mood])"

text \<open>
  JavaScript numbers are modelled as real numbers (track and follower counts as integers).
  The callback of \<open>searchTerms.forEach\<close> in \<open>calculateNameRelevance\<close> updates the two local
  variables \<open>relevanceScore\<close> and \<open>matchCount\<close>; \<open>relevanceStep\<close> is one call of it.
\<close>

fun relevanceStep :: "string \<Rightarrow> real \<times> nat \<Rightarrow> string \<Rightarrow> real \<times> nat" where
  "relevanceStep lowerText (relevanceScore, matchCount) term' =
     (if includes_str lowerText (toLowerCase term')
      then (if lowerText = toLowerCase term' then (relevanceScore + 1, matchCount + 1)
            else (relevanceScore + 0.5, matchCount + 1))
      else (relevanceScore, matchCount))"

definition calculateNameRelevance :: "string \<Rightarrow> string \<Rightarrow> real" where
  "calculateNameRelevance text' mood =
     (if text' = [] then 0
      else
        let lowerText = toLowerCase text';
            searchTerms = moodSearchTerms mood;
            (relevanceScore, matchCount) = foldl (relevanceStep lowerText) (0, 0) searchTerms
        in min (relevanceScore / real (length searchTerms)) 1)"

definition calculatePlaylistScore :: "SpotifyPlaylist \<Rightarrow> string \<Rightarrow> real" where
  "calculatePlaylistScore playlist mood =
     (let score0 = 0 + log 10 (real_of_int (max
              (case followers_total playlist of None \<Rightarrow> 1 | Some t \<Rightarrow> if t = 0 then 1 else t) 1)) * 10;
          trackCount = tracks_total playlist;
          score1 = (if trackCount \<ge> 30 \<and> trackCount \<le> 100 then score0 + 20
                    else if trackCount \<ge> 15 \<and> trackCount \<le> 150 then score0 + 10
                    else score0);
          nameRelevance = calculateNameRelevance (name playlist) mood;
          score2 = score1 + nameRelevance * 30;
          score3 = (if description playlist \<noteq> []
                    then score2 + calculateNameRelevance (description playlist) mood * 15
                    else score2);
          score4 = (if images playlist \<noteq> [] then score3 + 5 else score3)
      in score4)"

section \<open>SpotifyService: selection\<close>

text \<open>
  Thrown errors are values. \<open>Array.prototype.sort\<close> with a comparison function is modelled
  as a stable insertion sort: an element goes before the first element it does not
  compare greater than.
\<close>

datatype js_error = Error (message: string) | TypeError (message: string)

fun insertSorted :: "('a \<Rightarrow> 'a \<Rightarrow> real) \<Rightarrow> 'a \<Rightarrow> 'a list \<Rightarrow> 'a list" where
  "insertSorted compareFn x [] = [x]"
| "insertSorted compareFn x (y # ys) =
     (if compareFn x y \<le> 0 then x # y # ys else y # insertSorted compareFn x ys)"

definition js_sort :: "('a \<Rightarrow> 'a \<Rightarrow> real) \<Rightarrow> 'a list \<Rightarrow> 'a list" where
  "js_sort compareFn xs = foldr (insertSorted compareFn) xs []"

record ScoredPlaylist =
  playlist :: SpotifyPlaylist
  score :: real

definition scorePlaylists :: "SpotifyPlaylist list \<Rightarrow> string \<Rightarrow> ScoredPlaylist list" where
  "scorePlaylists playlists mood =
     map (\<lambda>p. \<lparr>playlist = p, score = calculatePlaylistScore p mood\<rparr>) playlists"

definition selectBestPlaylist :: "SpotifyPlaylist list \<Rightarrow> string \<Rightarrow> js_error + SpotifyPlaylist" where
  "selectBestPlaylist playlists mood =
     (if length playlists = 0 then Inl (Error ''No playlists available for selection'')
      else
        let scoredPlaylists = scorePlaylists playlists mood;
            sorted = js_sort (\<lambda>a b. score b - score a) scoredPlaylists
        in (case sorted of
              [] \<Rightarrow> Inl (TypeError ''Cannot read property playlist of undefined'')
            | best # _ \<Rightarrow> Inr (playlist best)))"

section \<open>SpotifyService: search aggregation and entry points\<close>

text \<open>
  The catalogue and the credential store are the environment. A search request carries
  the query term and the bearer token; \<open>fetch\<close> answers the \<open>n\<close>-th request issued, either
  by throwing (\<open>Rejects\<close>: the request or the decoding of its body fails) or with a
  response. \<open>getAccessToken\<close> answers the \<open>n\<close>-th call of
  \<open>SpotifyAuthService.getAccessToken\<close>, which returns a token or null and does not throw.
  The trace records the requests issued and the number of token calls made so far.
\<close>

record Request =
  query :: string
  bearer :: string

record SearchResponse =
  ok :: bool
  status :: nat
  items :: "SpotifyPlaylist list"

datatype FetchOutcome = Rejects | Resolves SearchResponse

record World =
  fetch :: "nat \<Rightarrow> Request \<Rightarrow> FetchOutcome"
  getAccessToken :: "nat \<Rightarrow> string option"

record Trace =
  requests :: "Request list"
  tokenCalls :: nat

text \<open>
  The \<open>for\<close> loop of \<open>searchPlaylistsByMood\<close>: \<open>None\<close> is an exception leaving the loop
  (caught by the enclosing \<open>try\<close>), \<open>Some\<close> the accumulated \<open>allPlaylists\<close>. When the
  search terms are an inherited member, \<open>searchTerms.slice(0, 3)\<close> raises a \<open>TypeError\<close>
  before any request; the same handler catches it and the result is the empty list.
\<close>

fun searchLoop ::
  "World \<Rightarrow> string \<Rightarrow> string list \<Rightarrow> SpotifyPlaylist list \<Rightarrow> Trace
     \<Rightarrow> SpotifyPlaylist list option \<times> Trace" where
  "searchLoop w accessToken [] allPlaylists tr = (Some allPlaylists, tr)"
| "searchLoop w accessToken (term' # rest) allPlaylists tr =
     (let req = \<lparr>query = term', bearer = accessToken\<rparr>;
          tr' = tr\<lparr>requests := requests tr @ [req]\<rparr>
      in (case fetch w (length (requests tr)) req of
            Rejects \<Rightarrow> (None, tr')
          | Resolves response \<Rightarrow>
              if \<not> ok response then searchLoop w accessToken rest allPlaylists tr'
              else searchLoop w accessToken rest (allPlaylists @ items response) tr'))"

definition searchPlaylistsByMood ::
  "World \<Rightarrow> string \<Rightarrow> string \<Rightarrow> Trace \<Rightarrow> SpotifyPlaylist list \<times> Trace" where
  "searchPlaylistsByMood w mood accessToken tr =
     (case searchTermsOrDefault mood of
        NotAnArray \<Rightarrow> ([], tr)
      | Terms searchTerms \<Rightarrow>
          (case searchLoop w accessToken (take 3 searchTerms) [] tr of
             (None, tr') \<Rightarrow> ([], tr')
           | (Some allPlaylists, tr') \<Rightarrow>
               (filterPlaylistsByQuality (removeDuplicatePlaylists allPlaylists), tr')))"

text \<open>
  \<open>getPlaylistForMood\<close>: the body of the \<open>try\<close> block, then the \<open>catch\<close> handler, which
  replaces every error.
\<close>

definition getPlaylistForMood_try :: "World \<Rightarrow> string \<Rightarrow> Trace \<Rightarrow> (js_error + string) \<times> Trace" where
  "getPlaylistForMood_try w mood tr =
     (let accessToken = getAccessToken w (tokenCalls tr);
          tr1 = tr\<lparr>tokenCalls := tokenCalls tr + 1\<rparr>
      in (case accessToken of
            None \<Rightarrow> (Inl (Error ''Authentication required''), tr1)
          | Some token \<Rightarrow>
              if token = [] then (Inl (Error ''Authentication required''), tr1)
              else
                (case searchPlaylistsByMood w mood token tr1 of
                   (playlists, tr2) \<Rightarrow>
                     if length playlists = 0
                     then (Inl (Error ''No playlists found for this mood''), tr2)
                     else (case selectBestPlaylist playlists mood of
                             Inl e \<Rightarrow> (Inl e, tr2)
                           | Inr bestPlaylist \<Rightarrow> (Inr (id_pl bestPlaylist), tr2)))))"

definition getPlaylistForMood :: "World \<Rightarrow> string \<Rightarrow> Trace \<Rightarrow> (js_error + string) \<times> Trace" where
  "getPlaylistForMood w mood tr =
     (case getPlaylistForMood_try w mood tr of
        (Inl error, tr') \<Rightarrow>
          if message error = ''Authentication required''
          then (Inl (Error ''Please authenticate with Spotify to get personalized playlists''), tr')
          else (Inl (Error ''Failed to get playlist for mood''), tr')
      | (Inr playlistId, tr') \<Rightarrow> (Inr playlistId, tr'))"

text \<open>
  \<open>Array.prototype.slice(0, end)\<close>: a negative \<open>end\<close> counts from the end of the array.
  The parameter \<open>count: number = 3\<close> is optional; its catch handler rethrows the error.
\<close>

definition slice0 :: "int \<Rightarrow> 'a list \<Rightarrow> 'a list" where
  "slice0 end' xs =
     (if end' < 0 then take (nat (int (length xs) + end')) xs else take (nat end') xs)"

definition getMultiplePlaylistsForMood ::
  "World \<Rightarrow> string \<Rightarrow> int option \<Rightarrow> Trace \<Rightarrow> (js_error + string list) \<times> Trace" where
  "getMultiplePlaylistsForMood w mood countArg tr =
     (let count = (case countArg of None \<Rightarrow> 3 | Some c \<Rightarrow> c);
          accessToken = getAccessToken w (tokenCalls tr);
          tr1 = tr\<lparr>tokenCalls := tokenCalls tr + 1\<rparr>
      in (case accessToken of
            None \<Rightarrow> (Inl (Error ''Authentication required''), tr1)
          | Some token \<Rightarrow>
              if token = [] then (Inl (Error ''Authentication required''), tr1)
              else
                (case searchPlaylistsByMood w mood token tr1 of
                   (playlists, tr2) \<Rightarrow>
                     if length playlists = 0
                     then (case getPlaylistForMood w mood tr2 of
                             (Inl e, tr3) \<Rightarrow> (Inl e, tr3)
                           | (Inr singlePlaylist, tr3) \<Rightarrow> (Inr [singlePlaylist], tr3))
                     else
                       let scoredPlaylists = scorePlaylists playlists mood;
                           sorted = js_sort (\<lambda>a b. score b - score a) scoredPlaylists;
                           topPlaylists =
                             map (\<lambda>item. id_pl (playlist item))
                               (slice0 (min count (int (length sorted))) sorted)
                       in (Inr topPlaylists, tr2))))"

section \<open>SpotifyServiceStatic\<close>

text \<open>
  The static variant keeps its token in the field \<open>ACCESS_TOKEN\<close> (a parameter here), has
  its own keyword table and scoring, and returns null instead of throwing. When
  \<open>getMoodKeywords\<close> returns an inherited member, the \<open>for ... of\<close> loop of
  \<open>searchPlaylistsByMood\<close> and \<open>moodKeywords.some\<close> in the scoring raise a \<open>TypeError\<close>.
\<close>

definition moodMap :: "string \<rightharpoonup> string list" where
  "moodMap = map_of
     [(''happy'', [''happy'', ''upbeat'', ''cheerful'', ''joyful'', ''positive'']),
      (''sad'', [''sad'', ''melancholy'', ''emotional'', ''slow'', ''heartbreak'']),
      (''energetic'', [''energetic'', ''pump up'', ''workout'', ''high energy'', ''motivation'']),
      (''calm'', [''calm'', ''relaxing'', ''chill'', ''peaceful'', ''ambient'']),
      (''angry'', [''angry'', ''aggressive'', ''metal'', ''punk'', ''rage'']),
      (''romantic'', [''romantic'', ''love'', ''slow dance'', ''valentine'', ''intimate'']),
      (''nostalgic'', [''nostalgic'', ''throwback'', ''classic'', ''memories'', ''vintage'']),
      (''excited'', [''excited'', ''party'', ''celebration'', ''fun'', ''uplifting''])]"

definition Static_getMoodKeywords :: "string \<Rightarrow> terms_value" where
  "Static_getMoodKeywords mood =
     (let lowerMood = toLowerCase mood
      in (case getProperty moodMap lowerMood of
            Own keywords \<Rightarrow> Terms keywords
          | Inherited \<Rightarrow> NotAnArray
          | Undefined \<Rightarrow> Terms [''music'', ''playlist'', ''good vibes'']))"

fun Static_searchLoop ::
  "(nat \<Rightarrow> Request \<Rightarrow> FetchOutcome) \<Rightarrow> string \<Rightarrow> string list \<Rightarrow> SpotifyPlaylist list
     \<Rightarrow> Request list \<Rightarrow> SpotifyPlaylist list \<times> Request list" where
  "Static_searchLoop fetch' ACCESS_TOKEN [] allPlaylists reqs = (allPlaylists, reqs)"
| "Static_searchLoop fetch' ACCESS_TOKEN (keyword # rest) allPlaylists reqs =
     (let req = \<lparr>query = CHR 0x22 # keyword @ CHR 0x22 # '' mood playlist'',
                 bearer = ACCESS_TOKEN\<rparr>;
          reqs' = reqs @ [req]
      in (case fetch' (length reqs) req of
            Rejects \<Rightarrow> Static_searchLoop fetch' ACCESS_TOKEN rest allPlaylists reqs'
          | Resolves response \<Rightarrow>
              if \<not> ok response
              then Static_searchLoop fetch' ACCESS_TOKEN rest allPlaylists reqs'
              else
                let filteredPlaylists =
                      filter (\<lambda>p. tracks_total p > 10 \<and>
                                  includes_str (toLowerCase (name p)) (toLowerCase keyword))
                        (items response)
                in Static_searchLoop fetch' ACCESS_TOKEN rest
                     (allPlaylists @ filteredPlaylists) reqs'))"

definition Static_searchPlaylistsByMood ::
  "(nat \<Rightarrow> Request \<Rightarrow> FetchOutcome) \<Rightarrow> string \<Rightarrow> terms_value \<Rightarrow> Request list
     \<Rightarrow> (js_error + SpotifyPlaylist list) \<times> Request list" where
  "Static_searchPlaylistsByMood fetch' ACCESS_TOKEN keywords reqs =
     (case keywords of
        NotAnArray \<Rightarrow> (Inl (TypeError ''keywords is not iterable''), reqs)
      | Terms keywordList \<Rightarrow>
          (case Static_searchLoop fetch' ACCESS_TOKEN keywordList [] reqs of
             (allPlaylists, reqs') \<Rightarrow> (Inr allPlaylists, reqs')))"

definition Static_playlistScore :: "SpotifyPlaylist \<Rightarrow> string \<Rightarrow> js_error + real" where
  "Static_playlistScore p mood =
     (let score0 = 0 + min (real_of_int (tracks_total p) / 10) 10
      in (case Static_getMoodKeywords mood of
            NotAnArray \<Rightarrow> Inl (TypeError ''moodKeywords.some is not a function'')
          | Terms moodKeywords \<Rightarrow>
              let nameContainsMood =
                    list_ex (\<lambda>keyword. includes_str (toLowerCase (name p)) (toLowerCase keyword))
                      moodKeywords;
                  score1 = (if nameContainsMood then score0 + 5 else score0);
                  score2 = (if description p \<noteq> [] then score1 + 2 else score1);
                  score3 = (if images p \<noteq> [] then score2 + 1 else score2)
              in Inr score3))"

text \<open>The \<open>map\<close> over the playlists stops at the first callback that throws.\<close>

fun Static_scorePlaylists :: "SpotifyPlaylist list \<Rightarrow> string \<Rightarrow> js_error + ScoredPlaylist list" where
  "Static_scorePlaylists [] mood = Inr []"
| "Static_scorePlaylists (p # rest) mood =
     (case Static_playlistScore p mood of
        Inl e \<Rightarrow> Inl e
      | Inr s \<Rightarrow>
          (case Static_scorePlaylists rest mood of
             Inl e \<Rightarrow> Inl e
           | Inr scored \<Rightarrow> Inr (\<lparr>playlist = p, score = s\<rparr> # scored)))"

definition Static_selectBestPlaylist :: "SpotifyPlaylist list \<Rightarrow> string \<Rightarrow> js_error + SpotifyPlaylist" where
  "Static_selectBestPlaylist playlists mood =
     (case Static_scorePlaylists playlists mood of
        Inl e \<Rightarrow> Inl e
      | Inr scoredPlaylists \<Rightarrow>
          let sorted = js_sort (\<lambda>a b. score b - score a) scoredPlaylists
          in (case sorted of
                [] \<Rightarrow> Inl (TypeError ''Cannot read property playlist of undefined'')
              | best # _ \<Rightarrow> Inr (playlist best)))"

definition Static_getPlaylistForMood ::
  "(nat \<Rightarrow> Request \<Rightarrow> FetchOutcome) \<Rightarrow> string \<Rightarrow> string \<Rightarrow> Request list
     \<Rightarrow> SpotifyPlaylist option \<times> Request list" where
  "Static_getPlaylistForMood fetch' ACCESS_TOKEN mood reqs =
     (if ACCESS_TOKEN = ''YOUR_ACCESS_TOKEN_FROM_POSTMAN_HERE'' then (None, reqs)
      else
        let moodKeywords = Static_getMoodKeywords mood
        in (case Static_searchPlaylistsByMood fetch' ACCESS_TOKEN moodKeywords reqs of
              (Inl e, reqs') \<Rightarrow> (None, reqs')
            | (Inr playlists, reqs') \<Rightarrow>
                if length playlists = 0 then (None, reqs')
                else (case Static_selectBestPlaylist playlists mood of
                        Inl e \<Rightarrow> (None, reqs')
                      | Inr selectedPlaylist \<Rightarrow> (Some selectedPlaylist, reqs'))))"

section \<open>Reference view of the merge, and example data\<close>

text \<open>
  What one search request contributes to the merged sequence according to the
  specification: the items of a successful response, nothing otherwise.
\<close>

definition spec_contribution :: "FetchOutcome \<Rightarrow> SpotifyPlaylist list" where
  "spec_contribution outcome =
     (case outcome of Rejects \<Rightarrow> [] | Resolves response \<Rightarrow> if ok response then items response else [])"

definition searchRequest :: "string \<Rightarrow> string \<Rightarrow> Request" where
  "searchRequest accessToken term' = \<lparr>query = term', bearer = accessToken\<rparr>"

definition allResolve :: "World \<Rightarrow> string \<Rightarrow> string list \<Rightarrow> Trace \<Rightarrow> bool" where
  "allResolve w accessToken terms tr =
     list_all (\<lambda>i. fetch w (length (requests tr) + i) (searchRequest accessToken (terms ! i)) \<noteq> Rejects)
       [0..<length terms]"

definition spec_merged :: "World \<Rightarrow> string \<Rightarrow> string list \<Rightarrow> Trace \<Rightarrow> SpotifyPlaylist list" where
  "spec_merged w accessToken terms tr =
     concat (map (\<lambda>i. spec_contribution
                          (fetch w (length (requests tr) + i) (searchRequest accessToken (terms ! i))))
               [0..<length terms])"

definition cover :: SpotifyImage where
  "cover = \<lparr>url = ''https://i.scdn.co/image/cover'', height = 640, width = 640\<rparr>"

definition examplePlaylist ::
  "string \<Rightarrow> string \<Rightarrow> int \<Rightarrow> int option \<Rightarrow> SpotifyImage list \<Rightarrow> SpotifyPlaylist" where
  "examplePlaylist i n t f imgs =
     \<lparr>id_pl = i, name = n, description = [], external_urls_spotify = [], images = imgs,
      tracks_total = t, followers_total = f\<rparr>"

definition candidate12 :: SpotifyPlaylist where
  "candidate12 = examplePlaylist ''p12'' ''Happy upbeat cheerful feel good'' 180 None []"

definition candidate45 :: SpotifyPlaylist where
  "candidate45 = examplePlaylist ''p45'' ''Road Trip'' 50 (Some 100) [cover]"

definition candidate30 :: SpotifyPlaylist where
  "candidate30 = examplePlaylist ''p30'' ''Evening Drive'' 50 (Some 10) []"

definition candidate30_again :: SpotifyPlaylist where
  "candidate30_again = examplePlaylist ''p30'' ''Evening Drive (copy)'' 60 None []"

definition testPlaylist :: SpotifyPlaylist where
  "testPlaylist = examplePlaylist ''pt'' ''My TEST mix'' 50 (Some 1000000) [cover]"

definition emptyTrace :: Trace where
  "emptyTrace = \<lparr>requests = [], tokenCalls = 0\<rparr>"

definition response200 :: "SpotifyPlaylist list \<Rightarrow> FetchOutcome" where
  "response200 ps = Resolves \<lparr>ok = True, status = 200, items = ps\<rparr>"

definition response500 :: FetchOutcome where
  "response500 = Resolves \<lparr>ok = False, status = 500, items = []\<rparr>"

definition worldNoToken :: World where
  "worldNoToken = \<lparr>fetch = (\<lambda>n req. response200 [candidate45]), getAccessToken = (\<lambda>n. None)\<rparr>"

definition worldAllFail :: World where
  "worldAllFail = \<lparr>fetch = (\<lambda>n req. response500), getAccessToken = (\<lambda>n. Some ''token'')\<rparr>"

definition worldNothingFound :: World where
  "worldNothingFound = \<lparr>fetch = (\<lambda>n req. response200 []), getAccessToken = (\<lambda>n. Some ''token'')\<rparr>"

definition worldSecondFails :: World where
  "worldSecondFails =
     \<lparr>fetch = (\<lambda>n req. if n = 1 then response500
                        else if n = 0 then response200 [candidate45]
                        else response200 [candidate30]),
      getAccessToken = (\<lambda>n. Some ''token'')\<rparr>"

section \<open>Deduplication keeps first occurrences\<close>

lemma removeDuplicatePlaylists_from_index:
  "removeDuplicatePlaylists_from seen ps =
     map ((!) ps)
       (filter (\<lambda>i. id_pl (ps ! i) \<notin> seen \<and> id_pl (ps ! i) \<notin> id_pl ` set (take i ps))
          [0..<length ps])"
proof (induction ps arbitrary: seen)
  case Nil
  show ?case by simp
next
  case (Cons p ps)
  have shift: "[0..<length (p # ps)] = 0 # map Suc [0..<length ps]"
    by (simp add: upt_conv_Cons map_Suc_upt del: upt_Suc)
  have step: "map ((!) (p # ps))
                (filter (\<lambda>i. id_pl ((p # ps) ! i) \<notin> seen \<and>
                             id_pl ((p # ps) ! i) \<notin> id_pl ` set (take i (p # ps)))
                   (map Suc xs))
            = map ((!) ps)
                (filter (\<lambda>i. id_pl (ps ! i) \<notin> insert (id_pl p) seen \<and>
                             id_pl (ps ! i) \<notin> id_pl ` set (take i ps))
                   xs)" for xs
    by (induction xs) auto
  show ?case
  proof (cases "id_pl p \<in> seen")
    case True
    then have "insert (id_pl p) seen = seen" by auto
    with True show ?thesis
      unfolding shift by (simp add: Cons.IH step)
  next
    case False
    then show ?thesis
      unfolding shift by (simp add: Cons.IH step)
  qed
qed

lemma removeDuplicatePlaylists_from_ids:
  "id_pl ` set (removeDuplicatePlaylists_from seen ps) = id_pl ` set ps - seen"
  by (induction ps arbitrary: seen) auto

lemma removeDuplicatePlaylists_from_distinct:
  "distinct (map id_pl (removeDuplicatePlaylists_from seen ps))"
proof (induction ps arbitrary: seen)
  case Nil
  show ?case by simp
next
  case (Cons p ps)
  have "id_pl p \<notin> id_pl ` set (removeDuplicatePlaylists_from (insert (id_pl p) seen) ps)"
    by (simp add: removeDuplicatePlaylists_from_ids)
  with Cons.IH show ?case by simp
qed

lemma distinct_map_filter_once:
  "distinct (map f xs) \<Longrightarrow> k \<in> f ` set xs \<Longrightarrow> length (filter (\<lambda>x. f x = k) xs) = 1"
  by (induction xs) (auto simp: filter_empty_conv image_iff)

text \<open>
  C3. For every input sequence the deduplication step returns exactly the entries whose
  identifier does not occur earlier in the input, in input order (so the first occurrence
  of each identifier is the one kept and the relative order of kept entries is that of
  the input), and each identifier of the input occurs exactly once in the result.
\<close>

theorem removeDuplicatePlaylists_first_occurrence:
  "removeDuplicatePlaylists ps =
     map (\<lambda>i. ps ! i)
       (filter (\<lambda>i. id_pl (ps ! i) \<notin> set (map id_pl (take i ps))) [0..<length ps])
   \<and> set (map id_pl (removeDuplicatePlaylists ps)) = set (map id_pl ps)
   \<and> (\<forall>k \<in> set (map id_pl ps).
        length (filter (\<lambda>q. id_pl q = k) (removeDuplicatePlaylists ps)) = 1)"
proof -
  have "\<forall>k \<in> set (map id_pl ps).
          length (filter (\<lambda>q. id_pl q = k) (removeDuplicatePlaylists ps)) = 1"
  proof
    fix k assume "k \<in> set (map id_pl ps)"
    then have "k \<in> id_pl ` set (removeDuplicatePlaylists ps)"
      by (simp add: removeDuplicatePlaylists_def removeDuplicatePlaylists_from_ids)
    then show "length (filter (\<lambda>q. id_pl q = k) (removeDuplicatePlaylists ps)) = 1"
      using distinct_map_filter_once [of id_pl "removeDuplicatePlaylists ps" k]
        removeDuplicatePlaylists_from_distinct [of "{}" ps]
      unfolding removeDuplicatePlaylists_def by blast
  qed
  moreover have "removeDuplicatePlaylists ps =
     map (\<lambda>i. ps ! i)
       (filter (\<lambda>i. id_pl (ps ! i) \<notin> set (map id_pl (take i ps))) [0..<length ps])"
    using removeDuplicatePlaylists_from_index [of "{}" ps]
    by (simp add: removeDuplicatePlaylists_def)
  moreover have "set (map id_pl (removeDuplicatePlaylists ps)) = set (map id_pl ps)"
    by (simp add: removeDuplicatePlaylists_def removeDuplicatePlaylists_from_ids)
  ultimately show ?thesis by blast
qed

text \<open>
  Two result batches sharing the identifier \<open>p30\<close>: the merged sequence keeps one entry
  for it.
\<close>

theorem removeDuplicatePlaylists_first_occurrence_witness:
  "''p30'' \<in> set (map id_pl ([candidate45, candidate30] @ [candidate30_again, candidate12])) \<and>
   length (filter (\<lambda>q. id_pl q = ''p30'')
     (removeDuplicatePlaylists ([candidate45, candidate30] @ [candidate30_again, candidate12]))) = 1"
  using removeDuplicatePlaylists_first_occurrence
    [of "[candidate45, candidate30] @ [candidate30_again, candidate12]"]
  by (simp add: candidate45_def candidate30_def candidate30_again_def candidate12_def
      examplePlaylist_def)

section \<open>Selection returns a maximal candidate\<close>

lemma set_insertSorted: "set (insertSorted compareFn x ys) = insert x (set ys)"
  by (induction ys) auto

lemma set_js_sort: "set (js_sort compareFn xs) = set xs"
  by (induction xs) (simp_all add: js_sort_def set_insertSorted)

lemma length_insertSorted: "length (insertSorted compareFn x ys) = Suc (length ys)"
  by (induction ys) auto

lemma length_js_sort: "length (js_sort compareFn xs) = length xs"
  by (induction xs) (simp_all add: js_sort_def length_insertSorted)

lemma descending_insertSorted:
  "sorted_wrt (\<lambda>a b. score b \<le> score a) ys \<Longrightarrow>
   sorted_wrt (\<lambda>a b. score b \<le> score a) (insertSorted (\<lambda>a b. score b - score a) x ys)"
proof (induction ys)
  case Nil
  show ?case by simp
next
  case (Cons y ys)
  show ?case
  proof (cases "score y \<le> score x")
    case True
    with Cons.prems show ?thesis by fastforce
  next
    case False
    with Cons show ?thesis by (auto simp: set_insertSorted)
  qed
qed

lemma descending_js_sort:
  "sorted_wrt (\<lambda>a b. score b \<le> score a) (js_sort (\<lambda>a b. score b - score a) xs)"
  by (induction xs) (simp_all add: js_sort_def descending_insertSorted)

lemma js_sort_head_maximal:
  assumes "js_sort (\<lambda>a b. score b - score a) xs = best # rest"
  shows "best \<in> set xs \<and> (\<forall>x \<in> set xs. score x \<le> score best)"
proof -
  have mem: "set xs = insert best (set rest)"
    using set_js_sort [of "\<lambda>a b. score b - score a" xs] assms by simp
  have "sorted_wrt (\<lambda>a b. score b \<le> score a) (best # rest)"
    using descending_js_sort [of xs] assms by simp
  then have "\<forall>x \<in> set rest. score x \<le> score best" by simp
  with mem show ?thesis by auto
qed

text \<open>
  C1. For every non-empty candidate sequence and every mood, \<open>selectBestPlaylist\<close> returns
  a candidate of the input whose score under \<open>calculatePlaylistScore\<close> is at least the
  score of every candidate of the input.
\<close>

theorem selectBestPlaylist_maximal:
  assumes "playlists \<noteq> []"
  shows "\<exists>best. selectBestPlaylist playlists mood = Inr best \<and> best \<in> set playlists \<and>
           (\<forall>p \<in> set playlists. calculatePlaylistScore p mood \<le> calculatePlaylistScore best mood)"
proof -
  let ?scored = "scorePlaylists playlists mood"
  let ?sorted = "js_sort (\<lambda>a b. score b - score a) ?scored"
  have "length ?sorted = length playlists"
    by (simp add: length_js_sort scorePlaylists_def)
  with assms obtain b rest where sorted: "?sorted = b # rest"
    by (cases ?sorted) auto
  from js_sort_head_maximal [OF sorted]
  have b_in: "b \<in> set ?scored" and b_max: "\<forall>x \<in> set ?scored. score x \<le> score b"
    by blast+
  from b_in obtain q where q: "q \<in> set playlists" "playlist b = q"
    "score b = calculatePlaylistScore q mood"
    by (auto simp: scorePlaylists_def)
  have "\<forall>p \<in> set playlists. calculatePlaylistScore p mood \<le> score b"
  proof
    fix p assume "p \<in> set playlists"
    then have "\<lparr>playlist = p, score = calculatePlaylistScore p mood\<rparr> \<in> set ?scored"
      by (auto simp: scorePlaylists_def)
    with b_max show "calculatePlaylistScore p mood \<le> score b" by fastforce
  qed
  moreover have "selectBestPlaylist playlists mood = Inr (playlist b)"
    using assms sorted by (simp add: selectBestPlaylist_def Let_def)
  ultimately show ?thesis using q by auto
qed

text \<open>Three candidates with scores 12, 45 and 30: the one with score 45 is selected.\<close>

lemma log10_100: "log 10 100 = 2"
  using log_of_power_eq [of 100 10 2] by simp

lemma score_candidate12: "calculatePlaylistScore candidate12 ''Happy'' = 12"
  by (simp add: calculatePlaylistScore_def candidate12_def examplePlaylist_def
      calculateNameRelevance_def moodSearchTerms_def MOOD_TO_SEARCH_TERMS_def
      toLowerCase_def toLowerCaseChar_def)

lemma score_candidate45: "calculatePlaylistScore candidate45 ''Happy'' = 45"
  by (simp add: calculatePlaylistScore_def candidate45_def examplePlaylist_def log10_100
      calculateNameRelevance_def moodSearchTerms_def MOOD_TO_SEARCH_TERMS_def
      toLowerCase_def toLowerCaseChar_def)

lemma score_candidate30: "calculatePlaylistScore candidate30 ''Happy'' = 30"
  by (simp add: calculatePlaylistScore_def candidate30_def examplePlaylist_def
      calculateNameRelevance_def moodSearchTerms_def MOOD_TO_SEARCH_TERMS_def
      toLowerCase_def toLowerCaseChar_def)

theorem selectBestPlaylist_maximal_witness:
  "[candidate12, candidate45, candidate30] \<noteq> [] \<and>
   map (\<lambda>p. calculatePlaylistScore p ''Happy'') [candidate12, candidate45, candidate30]
     = [12, 45, 30] \<and>
   selectBestPlaylist [candidate12, candidate45, candidate30] ''Happy'' = Inr candidate45"
proof -
  have ne: "[candidate12, candidate45, candidate30] \<noteq> []" by simp
  from selectBestPlaylist_maximal [OF ne, of "''Happy''"]
  obtain best where sel: "selectBestPlaylist [candidate12, candidate45, candidate30] ''Happy'' = Inr best"
    and mem: "best \<in> set [candidate12, candidate45, candidate30]"
    and mx: "\<forall>p \<in> set [candidate12, candidate45, candidate30].
               calculatePlaylistScore p ''Happy'' \<le> calculatePlaylistScore best ''Happy''"
    by blast
  from mx have "45 \<le> calculatePlaylistScore best ''Happy''"
    by (simp add: score_candidate45)
  with mem have "best = candidate45"
    by (auto simp: score_candidate12 score_candidate30)
  with sel show ?thesis
    by (simp add: score_candidate12 score_candidate45 score_candidate30)
qed

section \<open>Scoring\<close>

lemma moodSearchTerms_nonempty: "moodSearchTerms mood \<noteq> []"
  by (simp add: moodSearchTerms_def MOOD_TO_SEARCH_TERMS_def split: option.splits)

lemma relevance_fold_nonneg:
  "0 \<le> fst acc \<Longrightarrow> 0 \<le> fst (foldl (relevanceStep lowerText) acc terms)"
proof (induction terms arbitrary: acc)
  case Nil
  then show ?case by simp
next
  case (Cons t terms)
  obtain r m where acc: "acc = (r, m)" by (cases acc)
  with Cons.prems have "0 \<le> fst (relevanceStep lowerText acc t)" by simp
  then show ?case by (simp add: Cons.IH)
qed

lemma calculateNameRelevance_bounds:
  "0 \<le> calculateNameRelevance text' mood \<and> calculateNameRelevance text' mood \<le> 1"
proof (cases "text' = []")
  case True
  then show ?thesis by (simp add: calculateNameRelevance_def)
next
  case False
  let ?acc = "foldl (relevanceStep (toLowerCase text')) (0, 0) (moodSearchTerms mood)"
  have "0 \<le> fst ?acc" by (rule relevance_fold_nonneg) simp
  then have "0 \<le> fst ?acc / real (length (moodSearchTerms mood))" by simp
  with False show ?thesis
    by (simp add: calculateNameRelevance_def Let_def split_beta)
qed

text \<open>
  C10. For every text and every mood \<open>calculateNameRelevance\<close> lies between 0 and 1 (the
  number of search terms it divides by is never zero), so the name term is at most 30
  and the description term at most 15: dropping the name lowers the total score by at
  most 30, dropping the description by at most 15.
\<close>

theorem calculateNameRelevance_unit_interval:
  "0 \<le> calculateNameRelevance text' mood \<and> calculateNameRelevance text' mood \<le> 1 \<and>
   0 < length (moodSearchTerms mood) \<and>
   calculateNameRelevance (name p) mood * 30 \<le> 30 \<and>
   calculateNameRelevance (description p) mood * 15 \<le> 15 \<and>
   calculatePlaylistScore p mood \<le> calculatePlaylistScore (p\<lparr>name := []\<rparr>) mood + 30 \<and>
   calculatePlaylistScore p mood \<le> calculatePlaylistScore (p\<lparr>description := []\<rparr>) mood + 15"
proof -
  have n: "calculateNameRelevance (name p) mood \<le> 1"
    and d: "calculateNameRelevance (description p) mood \<le> 1"
    using calculateNameRelevance_bounds by blast+
  have e: "calculateNameRelevance [] mood = 0"
    by (simp add: calculateNameRelevance_def)
  have "calculatePlaylistScore p mood \<le> calculatePlaylistScore (p\<lparr>name := []\<rparr>) mood + 30"
    using n by (simp add: calculatePlaylistScore_def Let_def e)
  moreover have "calculatePlaylistScore p mood \<le> calculatePlaylistScore (p\<lparr>description := []\<rparr>) mood + 15"
    using d by (simp add: calculatePlaylistScore_def Let_def)
  ultimately show ?thesis
    using n d calculateNameRelevance_bounds [of text' mood] moodSearchTerms_nonempty [of mood]
    by simp
qed

lemma log10_1000: "log 10 1000 = 3"
  using log_of_power_eq [of 1000 10 3] by simp

lemma log10_100000: "log 10 100000 = 5"
  using log_of_power_eq [of 100000 10 5] by simp

lemma popularity_term:
  "calculatePlaylistScore (p\<lparr>followers_total := Some f\<rparr>) mood
     = 10 * log 10 (real_of_int (max f 1)) + calculatePlaylistScore (p\<lparr>followers_total := None\<rparr>) mood"
proof -
  have "max (if f = 0 then 1 else f) 1 = max f 1" by simp
  then show ?thesis
    by (simp add: calculatePlaylistScore_def Let_def)
qed

text \<open>
  C8. Of two candidates that differ only in follower count, 1,000 against 100,000, the
  one with 100,000 followers has the strictly higher score; the popularity term of a
  candidate with \<open>f\<close> followers is \<open>10 * log10 (max f 1)\<close>.
\<close>

theorem calculatePlaylistScore_followers_1000_vs_100000:
  "calculatePlaylistScore (p\<lparr>followers_total := Some 1000\<rparr>) mood
     < calculatePlaylistScore (p\<lparr>followers_total := Some 100000\<rparr>) mood \<and>
   calculatePlaylistScore (p\<lparr>followers_total := Some f\<rparr>) mood
     = 10 * log 10 (real_of_int (max f 1)) + calculatePlaylistScore (p\<lparr>followers_total := None\<rparr>) mood"
  by (simp add: popularity_term log10_1000 log10_100000)

section \<open>Keyword expansion and quality filter\<close>

lemma includes_str_iff: "includes_str s t \<longleftrightarrow> (\<exists>pre suf. s = pre @ t @ suf)"
proof (induction s)
  case Nil
  show ?case by auto
next
  case (Cons c cs)
  have "(\<exists>pre suf. c # cs = pre @ t @ suf) \<longleftrightarrow> prefix t (c # cs) \<or> (\<exists>pre suf. cs = pre @ t @ suf)"
    using sublist_Cons_right [of t c cs] by (simp add: sublist_def)
  with Cons.IH show ?case by simp
qed

text \<open>
  C9. A playlist passes the quality filter exactly when it has a non-empty name, between
  15 and 200 tracks, and a lowercased name that does not contain \<open>test\<close>; so every
  playlist whose lowercased name contains \<open>test\<close> is excluded, whatever its other
  attributes.
\<close>

theorem filterPlaylistsByQuality_membership:
  "p \<in> set (filterPlaylistsByQuality playlists) \<longleftrightarrow>
     p \<in> set playlists \<and> name p \<noteq> [] \<and> 15 \<le> tracks_total p \<and> tracks_total p \<le> 200 \<and>
     \<not> (\<exists>pre suf. toLowerCase (name p) = pre @ ''test'' @ suf)"
  by (auto simp: filterPlaylistsByQuality_def includes_str_iff)

theorem filterPlaylistsByQuality_membership_witness:
  "toLowerCase (name testPlaylist) = ''my '' @ ''test'' @ '' mix'' \<and>
   tracks_total testPlaylist = 50 \<and> followers_total testPlaylist = Some 1000000 \<and>
   testPlaylist \<notin> set (filterPlaylistsByQuality [testPlaylist, candidate45]) \<and>
   candidate45 \<in> set (filterPlaylistsByQuality [testPlaylist, candidate45])"
proof -
  have low: "toLowerCase (name testPlaylist) = ''my '' @ ''test'' @ '' mix''"
    by (simp add: testPlaylist_def examplePlaylist_def toLowerCase_def toLowerCaseChar_def)
  then have "\<exists>pre suf. toLowerCase (name testPlaylist) = pre @ ''test'' @ suf" by blast
  then have "testPlaylist \<notin> set (filterPlaylistsByQuality [testPlaylist, candidate45])"
    using filterPlaylistsByQuality_membership [of testPlaylist "[testPlaylist, candidate45]"] by blast
  moreover have "candidate45 \<in> set (filterPlaylistsByQuality [testPlaylist, candidate45])"
    by (simp add: filterPlaylistsByQuality_def candidate45_def testPlaylist_def examplePlaylist_def
        toLowerCase_def toLowerCaseChar_def)
  ultimately show ?thesis
    using low by (simp add: testPlaylist_def examplePlaylist_def)
qed

lemma own_keys_MOOD_TO_SEARCH_TERMS:
  "dom MOOD_TO_SEARCH_TERMS = {''Happy'', ''Sad'', ''Calm'', ''Energetic'', ''Excited'', ''Peaceful''}"
  by (auto simp: MOOD_TO_SEARCH_TERMS_def dom_def split: if_splits)

lemma own_keys_moodMap:
  "dom moodMap = {''happy'', ''sad'', ''energetic'', ''calm'', ''angry'', ''romantic'',
                  ''nostalgic'', ''excited''}"
  by (auto simp: moodMap_def dom_def split: if_splits)

lemma getProperty_Undefined_iff:
  "getProperty table key = Undefined \<longleftrightarrow> key \<notin> dom table \<and> key \<notin> set objectPrototypeKeys"
  by (auto simp: getProperty_def dom_def split: option.splits)

lemma getProperty_Inherited_iff:
  "getProperty table key = Inherited \<longleftrightarrow> key \<notin> dom table \<and> key \<in> set objectPrototypeKeys"
  by (auto simp: getProperty_def dom_def split: option.splits)

lemma searchTermsOrDefault_cases:
  "searchTermsOrDefault mood =
     (if mood \<notin> dom MOOD_TO_SEARCH_TERMS \<and> mood \<in> set objectPrototypeKeys then NotAnArray
      else Terms (moodSearchTerms mood))"
  by (auto simp: searchTermsOrDefault_def moodSearchTerms_def getProperty_def dom_def
      split: option.splits)

text \<open>
  C4, as stated, fails in two ways. \<open>SpotifyServiceStatic.getMoodKeywords\<close> expands the
  unmapped mood \<open>Bored\<close> to three fixed keywords, not to its lowercased self. And the mood
  \<open>constructor\<close>, which is not a key of \<open>MOOD_TO_SEARCH_TERMS\<close>, reads an inherited member
  in \<open>SpotifyService\<close>, not a one-element list; the search then raises a \<open>TypeError\<close>
  internally and issues no request.
\<close>

theorem getMoodKeywords_unmapped_counterexample:
  "moodMap ''Bored'' = None \<and> moodMap (toLowerCase ''Bored'') = None \<and>
   Static_getMoodKeywords ''Bored'' = Terms [''music'', ''playlist'', ''good vibes''] \<and>
   Static_getMoodKeywords ''Bored'' \<noteq> Terms [toLowerCase ''Bored''] \<and>
   MOOD_TO_SEARCH_TERMS ''constructor'' = None \<and>
   searchTermsOrDefault ''constructor'' = NotAnArray \<and>
   searchTermsOrDefault ''constructor'' \<noteq> Terms [toLowerCase ''constructor''] \<and>
   searchPlaylistsByMood worldNoToken ''constructor'' ''token'' emptyTrace = ([], emptyTrace)"
  by (simp add: Static_getMoodKeywords_def moodMap_def toLowerCase_def toLowerCaseChar_def
      getProperty_def objectPrototypeKeys_def searchTermsOrDefault_def MOOD_TO_SEARCH_TERMS_def
      searchPlaylistsByMood_def)

text \<open>
  C4 (amended). For a mood that is neither one of the six keys of \<open>MOOD_TO_SEARCH_TERMS\<close>
  nor the name of a member inherited from \<open>Object.prototype\<close>, the expansion of
  \<open>SpotifyService\<close> is the single lowercased mood. For a mood whose lowercase form is
  neither one of the eight keys of \<open>moodMap\<close> nor such a name,
  \<open>SpotifyServiceStatic.getMoodKeywords\<close> returns the three default keywords.
\<close>

theorem keyword_expansion_unmapped:
  "(mood \<notin> {''Happy'', ''Sad'', ''Calm'', ''Energetic'', ''Excited'', ''Peaceful''} \<and>
    mood \<notin> set objectPrototypeKeys
    \<longrightarrow> searchTermsOrDefault mood = Terms [toLowerCase mood]) \<and>
   (toLowerCase mood \<notin> {''happy'', ''sad'', ''energetic'', ''calm'', ''angry'', ''romantic'',
                          ''nostalgic'', ''excited''} \<and>
    toLowerCase mood \<notin> set objectPrototypeKeys
    \<longrightarrow> Static_getMoodKeywords mood = Terms [''music'', ''playlist'', ''good vibes''])"
proof (intro conjI impI)
  assume h: "mood \<notin> {''Happy'', ''Sad'', ''Calm'', ''Energetic'', ''Excited'', ''Peaceful''} \<and>
             mood \<notin> set objectPrototypeKeys"
  from h have "mood \<notin> dom MOOD_TO_SEARCH_TERMS"
    unfolding own_keys_MOOD_TO_SEARCH_TERMS by (rule conjunct1)
  moreover from h have "mood \<notin> set objectPrototypeKeys" by (rule conjunct2)
  ultimately have "getProperty MOOD_TO_SEARCH_TERMS mood = Undefined"
    unfolding getProperty_Undefined_iff by (rule conjI)
  then show "searchTermsOrDefault mood = Terms [toLowerCase mood]"
    by (simp add: searchTermsOrDefault_def)
next
  assume h: "toLowerCase mood \<notin> {''happy'', ''sad'', ''energetic'', ''calm'', ''angry'',
                                     ''romantic'', ''nostalgic'', ''excited''} \<and>
             toLowerCase mood \<notin> set objectPrototypeKeys"
  from h have "toLowerCase mood \<notin> dom moodMap"
    unfolding own_keys_moodMap by (rule conjunct1)
  moreover from h have "toLowerCase mood \<notin> set objectPrototypeKeys" by (rule conjunct2)
  ultimately have "getProperty moodMap (toLowerCase mood) = Undefined"
    unfolding getProperty_Undefined_iff by (rule conjI)
  then show "Static_getMoodKeywords mood = Terms [''music'', ''playlist'', ''good vibes'']"
    by (simp add: Static_getMoodKeywords_def)
qed

theorem keyword_expansion_unmapped_witness:
  "''Bored'' \<notin> {''Happy'', ''Sad'', ''Calm'', ''Energetic'', ''Excited'', ''Peaceful''} \<and>
   ''Bored'' \<notin> set objectPrototypeKeys \<and>
   searchTermsOrDefault ''Bored'' = Terms [''bored''] \<and>
   toLowerCase ''Bored'' \<notin> {''happy'', ''sad'', ''energetic'', ''calm'', ''angry'', ''romantic'',
                             ''nostalgic'', ''excited''} \<and>
   toLowerCase ''Bored'' \<notin> set objectPrototypeKeys \<and>
   Static_getMoodKeywords ''Bored'' = Terms [''music'', ''playlist'', ''good vibes'']"
proof -
  have c: "toLowerCase ''Bored'' = ''bored''"
    by (simp add: toLowerCase_def toLowerCaseChar_def)
  have a: "''Bored'' \<notin> {''Happy'', ''Sad'', ''Calm'', ''Energetic'', ''Excited'', ''Peaceful''}"
    "''Bored'' \<notin> set objectPrototypeKeys"
    by (simp_all add: objectPrototypeKeys_def)
  have b: "''bored'' \<notin> {''happy'', ''sad'', ''energetic'', ''calm'', ''angry'', ''romantic'',
                          ''nostalgic'', ''excited''}"
    "''bored'' \<notin> set objectPrototypeKeys"
    by (simp_all add: objectPrototypeKeys_def)
  from keyword_expansion_unmapped [of "''Bored''"] a b c show ?thesis by simp
qed

section \<open>Entry points\<close>

lemma searchLoop_resolving:
  "allResolve w accessToken terms tr \<Longrightarrow>
   searchLoop w accessToken terms allPlaylists tr =
     (Some (allPlaylists @ spec_merged w accessToken terms tr),
      tr\<lparr>requests := requests tr @ map (searchRequest accessToken) terms\<rparr>)"
proof (induction terms arbitrary: allPlaylists tr)
  case Nil
  show ?case by (simp add: spec_merged_def)
next
  case (Cons t terms)
  let ?req = "searchRequest accessToken t"
  let ?tr' = "tr\<lparr>requests := requests tr @ [?req]\<rparr>"
  have idx: "[0..<length (t # terms)] = 0 # map Suc [0..<length terms]"
    by (simp add: upt_conv_Cons map_Suc_upt del: upt_Suc)
  from Cons.prems have first: "fetch w (length (requests tr)) ?req \<noteq> Rejects"
    and rest: "allResolve w accessToken terms ?tr'"
    unfolding allResolve_def idx by (simp_all add: list.pred_map comp_def del: map_Suc_upt)
  have merged: "spec_merged w accessToken (t # terms) tr =
      spec_contribution (fetch w (length (requests tr)) ?req) @ spec_merged w accessToken terms ?tr'"
    unfolding spec_merged_def idx by (simp add: comp_def del: map_Suc_upt)
  from first obtain response where r: "fetch w (length (requests tr)) ?req = Resolves response"
    by (cases "fetch w (length (requests tr)) ?req") auto
  show ?case
    using r Cons.IH [OF rest] merged
    by (simp add: Let_def spec_contribution_def searchRequest_def)
qed

lemma spec_merged_requests:
  "requests tr' = requests tr \<Longrightarrow> spec_merged w accessToken terms tr' = spec_merged w accessToken terms tr"
  by (simp add: spec_merged_def)

lemma allResolve_requests:
  "requests tr' = requests tr \<Longrightarrow> allResolve w accessToken terms tr' = allResolve w accessToken terms tr"
  by (simp add: allResolve_def)

lemma searchPlaylistsByMood_resolving:
  assumes "searchTermsOrDefault mood = Terms searchTerms"
    and "allResolve w accessToken (take 3 searchTerms) tr"
  shows "searchPlaylistsByMood w mood accessToken tr =
     (filterPlaylistsByQuality (removeDuplicatePlaylists
          (spec_merged w accessToken (take 3 searchTerms) tr)),
      tr\<lparr>requests := requests tr @ map (searchRequest accessToken) (take 3 searchTerms)\<rparr>)"
  using searchLoop_resolving [OF assms(2), of "[]"] assms(1)
  by (simp add: searchPlaylistsByMood_def)

text \<open>
  A mood that names an inherited member yields no candidates and no request; so whenever
  the search returns candidates, the search terms are the list \<open>moodSearchTerms\<close> that the
  scoring functions use.
\<close>

lemma searchPlaylistsByMood_inherited:
  "searchTermsOrDefault mood = NotAnArray \<Longrightarrow> searchPlaylistsByMood w mood accessToken tr = ([], tr)"
  by (simp add: searchPlaylistsByMood_def)

lemma searchPlaylistsByMood_candidates_terms:
  assumes "fst (searchPlaylistsByMood w mood accessToken tr) \<noteq> []"
  shows "searchTermsOrDefault mood = Terms (moodSearchTerms mood)"
proof (cases "searchTermsOrDefault mood")
  case (Terms ts)
  then show ?thesis by (simp add: searchTermsOrDefault_cases split: if_splits)
next
  case NotAnArray
  with assms searchPlaylistsByMood_inherited [of mood w accessToken tr] show ?thesis by simp
qed

lemma selectBestPlaylist_nonempty:
  assumes "playlists \<noteq> []"
  shows "\<exists>best. selectBestPlaylist playlists mood = Inr best"
proof -
  have "length (js_sort (\<lambda>a b. score b - score a) (scorePlaylists playlists mood)) = length playlists"
    by (simp add: length_js_sort scorePlaylists_def)
  with assms obtain b rest where
    "js_sort (\<lambda>a b. score b - score a) (scorePlaylists playlists mood) = b # rest"
    by (cases "js_sort (\<lambda>a b. score b - score a) (scorePlaylists playlists mood)") auto
  with assms show ?thesis by (simp add: selectBestPlaylist_def Let_def)
qed

lemma getPlaylistForMood_no_token:
  assumes "getAccessToken w (tokenCalls tr) = None \<or> getAccessToken w (tokenCalls tr) = Some []"
  shows "getPlaylistForMood w mood tr =
           (Inl (Error ''Please authenticate with Spotify to get personalized playlists''),
            tr\<lparr>tokenCalls := tokenCalls tr + 1\<rparr>)"
  using assms by (auto simp: getPlaylistForMood_def getPlaylistForMood_try_def Let_def)

lemma getPlaylistForMood_empty:
  assumes "getAccessToken w (tokenCalls tr) = Some token" and "token \<noteq> []"
    and "fst (searchPlaylistsByMood w mood token (tr\<lparr>tokenCalls := tokenCalls tr + 1\<rparr>)) = []"
  shows "getPlaylistForMood w mood tr =
           (Inl (Error ''Failed to get playlist for mood''),
            snd (searchPlaylistsByMood w mood token (tr\<lparr>tokenCalls := tokenCalls tr + 1\<rparr>)))"
  using assms
  by (simp add: getPlaylistForMood_def getPlaylistForMood_try_def Let_def split_beta)

lemma getPlaylistForMood_nonempty:
  assumes "getAccessToken w (tokenCalls tr) = Some token" and "token \<noteq> []"
    and "fst (searchPlaylistsByMood w mood token (tr\<lparr>tokenCalls := tokenCalls tr + 1\<rparr>)) \<noteq> []"
  shows "\<exists>best. selectBestPlaylist
             (fst (searchPlaylistsByMood w mood token (tr\<lparr>tokenCalls := tokenCalls tr + 1\<rparr>))) mood
           = Inr best \<and>
         getPlaylistForMood w mood tr =
           (Inr (id_pl best),
            snd (searchPlaylistsByMood w mood token (tr\<lparr>tokenCalls := tokenCalls tr + 1\<rparr>)))"
proof -
  from selectBestPlaylist_nonempty [OF assms(3), of mood] obtain best where
    b: "selectBestPlaylist
          (fst (searchPlaylistsByMood w mood token (tr\<lparr>tokenCalls := tokenCalls tr + 1\<rparr>))) mood
        = Inr best" by blast
  with assms have "getPlaylistForMood w mood tr =
           (Inr (id_pl best),
            snd (searchPlaylistsByMood w mood token (tr\<lparr>tokenCalls := tokenCalls tr + 1\<rparr>)))"
    by (simp add: getPlaylistForMood_def getPlaylistForMood_try_def Let_def split_beta)
  with b show ?thesis by blast
qed

text \<open>
  C5. \<open>getPlaylistForMood\<close> fails with the authentication error exactly when no access
  token is available (so that error is distinct from every other failure), and in that
  case it issues no search request.
\<close>

theorem getPlaylistForMood_authentication_required:
  "(fst (getPlaylistForMood w mood tr)
      = Inl (Error ''Please authenticate with Spotify to get personalized playlists'')
    \<longleftrightarrow> getAccessToken w (tokenCalls tr) = None \<or> getAccessToken w (tokenCalls tr) = Some []) \<and>
   (getAccessToken w (tokenCalls tr) = None \<or> getAccessToken w (tokenCalls tr) = Some []
    \<longrightarrow> requests (snd (getPlaylistForMood w mood tr)) = requests tr)"
proof (cases "getAccessToken w (tokenCalls tr) = None \<or> getAccessToken w (tokenCalls tr) = Some []")
  case True
  then show ?thesis by (simp add: getPlaylistForMood_no_token)
next
  case False
  then obtain token where t: "getAccessToken w (tokenCalls tr) = Some token" "token \<noteq> []"
    by (cases "getAccessToken w (tokenCalls tr)") auto
  have "fst (getPlaylistForMood w mood tr)
          \<noteq> Inl (Error ''Please authenticate with Spotify to get personalized playlists'')"
  proof (cases "fst (searchPlaylistsByMood w mood token (tr\<lparr>tokenCalls := tokenCalls tr + 1\<rparr>)) = []")
    case True
    from getPlaylistForMood_empty [OF t True] show ?thesis by simp
  next
    case False
    from getPlaylistForMood_nonempty [OF t False] show ?thesis by auto
  qed
  with False show ?thesis by auto
qed

theorem getPlaylistForMood_authentication_required_witness:
  "getAccessToken worldNoToken (tokenCalls emptyTrace) = None \<and>
   fst (getPlaylistForMood worldNoToken ''Happy'' emptyTrace)
     = Inl (Error ''Please authenticate with Spotify to get personalized playlists'') \<and>
   requests (snd (getPlaylistForMood worldNoToken ''Happy'' emptyTrace)) = []"
proof -
  have "getAccessToken worldNoToken (tokenCalls emptyTrace) = None"
    by (simp add: worldNoToken_def)
  with getPlaylistForMood_authentication_required [of worldNoToken "''Happy''" emptyTrace]
  show ?thesis by (simp add: emptyTrace_def)
qed

section \<open>Zero candidates and failed requests\<close>

lemma happy_terms:
  "searchTermsOrDefault ''Happy'' = Terms [''happy'', ''upbeat'', ''cheerful'', ''feel good'', ''positive vibes'']"
  by (simp add: searchTermsOrDefault_def getProperty_def MOOD_TO_SEARCH_TERMS_def)

lemma search_worldNothingFound:
  "fst (searchPlaylistsByMood worldNothingFound ''Happy'' ''token'' tr) = []"
  by (simp add: searchPlaylistsByMood_def happy_terms worldNothingFound_def response200_def
      Let_def removeDuplicatePlaylists_def filterPlaylistsByQuality_def)

lemma search_worldAllFail:
  "fst (searchPlaylistsByMood worldAllFail ''Happy'' ''token'' tr) = []"
  by (simp add: searchPlaylistsByMood_def happy_terms worldAllFail_def response500_def
      Let_def removeDuplicatePlaylists_def filterPlaylistsByQuality_def)

lemma static_happy_keywords:
  "Static_getMoodKeywords ''Happy''
     = Terms [''happy'', ''upbeat'', ''cheerful'', ''joyful'', ''positive'']"
  by (simp add: Static_getMoodKeywords_def getProperty_def moodMap_def toLowerCase_def
      toLowerCaseChar_def)

lemma static_search_worldNothingFound:
  "fst (Static_searchPlaylistsByMood (fetch worldNothingFound) ''token''
          (Static_getMoodKeywords ''Happy'') []) = Inr []"
  by (simp add: Static_searchPlaylistsByMood_def static_happy_keywords worldNothingFound_def
      response200_def Let_def)

text \<open>
  C2, as stated, fails at the entry points: when every search answers with an empty page,
  \<open>SpotifyService.getPlaylistForMood\<close> fails with the generic error and
  \<open>SpotifyServiceStatic.getPlaylistForMood\<close> returns null.
\<close>

theorem empty_aggregation_counterexample:
  "fst (searchPlaylistsByMood worldNothingFound ''Happy'' ''token''
          (emptyTrace\<lparr>tokenCalls := tokenCalls emptyTrace + 1\<rparr>)) = [] \<and>
   fst (getPlaylistForMood worldNothingFound ''Happy'' emptyTrace)
     = Inl (Error ''Failed to get playlist for mood'') \<and>
   fst (Static_searchPlaylistsByMood (fetch worldNothingFound) ''token''
          (Static_getMoodKeywords ''Happy'') []) = Inr [] \<and>
   fst (Static_getPlaylistForMood (fetch worldNothingFound) ''token'' ''Happy'' []) = None"
proof -
  have tok: "getAccessToken worldNothingFound (tokenCalls emptyTrace) = Some ''token''"
    "''token'' \<noteq> []"
    by (simp_all add: worldNothingFound_def)
  have "fst (getPlaylistForMood worldNothingFound ''Happy'' emptyTrace)
          = Inl (Error ''Failed to get playlist for mood'')"
    using getPlaylistForMood_empty [OF tok search_worldNothingFound] by simp
  moreover have "fst (Static_getPlaylistForMood (fetch worldNothingFound) ''token'' ''Happy'' []) = None"
    using static_search_worldNothingFound
    by (auto simp: Static_getPlaylistForMood_def Let_def split: prod.splits sum.splits)
  ultimately show ?thesis
    using search_worldNothingFound static_search_worldNothingFound by simp
qed

text \<open>
  C2 (amended). \<open>selectBestPlaylist\<close> on the empty sequence fails with the error
  \<open>No playlists available for selection\<close>. When aggregation yields zero playlists,
  \<open>SpotifyService.getPlaylistForMood\<close> fails with the error
  \<open>Failed to get playlist for mood\<close>, and \<open>SpotifyServiceStatic.getPlaylistForMood\<close>
  (with a token set) returns null, as it does when its aggregation throws.
\<close>

theorem empty_selection_contract:
  "selectBestPlaylist [] mood = Inl (Error ''No playlists available for selection'') \<and>
   (getAccessToken w (tokenCalls tr) = Some token \<and> token \<noteq> [] \<and>
    fst (searchPlaylistsByMood w mood token (tr\<lparr>tokenCalls := tokenCalls tr + 1\<rparr>)) = []
    \<longrightarrow> fst (getPlaylistForMood w mood tr) = Inl (Error ''Failed to get playlist for mood'')) \<and>
   (ACCESS_TOKEN \<noteq> ''YOUR_ACCESS_TOKEN_FROM_POSTMAN_HERE'' \<and>
    (case fst (Static_searchPlaylistsByMood fetch' ACCESS_TOKEN (Static_getMoodKeywords mood') reqs) of
       Inl e \<Rightarrow> True
     | Inr playlists \<Rightarrow> playlists = [])
    \<longrightarrow> fst (Static_getPlaylistForMood fetch' ACCESS_TOKEN mood' reqs) = None)"
proof -
  have "selectBestPlaylist [] mood = Inl (Error ''No playlists available for selection'')"
    by (simp add: selectBestPlaylist_def)
  moreover have "fst (getPlaylistForMood w mood tr) = Inl (Error ''Failed to get playlist for mood'')"
    if "getAccessToken w (tokenCalls tr) = Some token" "token \<noteq> []"
      "fst (searchPlaylistsByMood w mood token (tr\<lparr>tokenCalls := tokenCalls tr + 1\<rparr>)) = []"
    using getPlaylistForMood_empty [OF that] by simp
  moreover have "fst (Static_getPlaylistForMood fetch' ACCESS_TOKEN mood' reqs) = None"
    if "ACCESS_TOKEN \<noteq> ''YOUR_ACCESS_TOKEN_FROM_POSTMAN_HERE''"
      "case fst (Static_searchPlaylistsByMood fetch' ACCESS_TOKEN (Static_getMoodKeywords mood') reqs) of
         Inl e \<Rightarrow> True
       | Inr playlists \<Rightarrow> playlists = []"
    using that
    by (auto simp: Static_getPlaylistForMood_def Let_def split: prod.splits sum.splits)
  ultimately show ?thesis by blast
qed

theorem empty_selection_contract_witness:
  "getAccessToken worldAllFail (tokenCalls emptyTrace) = Some ''token'' \<and>
   fst (searchPlaylistsByMood worldAllFail ''Happy'' ''token''
          (emptyTrace\<lparr>tokenCalls := tokenCalls emptyTrace + 1\<rparr>)) = [] \<and>
   fst (getPlaylistForMood worldAllFail ''Happy'' emptyTrace)
     = Inl (Error ''Failed to get playlist for mood'') \<and>
   fst (Static_searchPlaylistsByMood (fetch worldAllFail) ''token''
          (Static_getMoodKeywords ''Happy'') []) = Inr [] \<and>
   fst (Static_getPlaylistForMood (fetch worldAllFail) ''token'' ''Happy'' []) = None"
proof -
  have tok: "getAccessToken worldAllFail (tokenCalls emptyTrace) = Some ''token''"
    by (simp add: worldAllFail_def)
  have st: "fst (Static_searchPlaylistsByMood (fetch worldAllFail) ''token''
          (Static_getMoodKeywords ''Happy'') []) = Inr []"
    by (simp add: Static_searchPlaylistsByMood_def static_happy_keywords worldAllFail_def
      response500_def Let_def)
  have ne: "''token'' \<noteq> ''YOUR_ACCESS_TOKEN_FROM_POSTMAN_HERE''" by simp
  from empty_selection_contract
    [of "''Happy''" worldAllFail emptyTrace "''token''" "''token''" "fetch worldAllFail" "''Happy''" "[]"]
    tok st ne search_worldAllFail
  show ?thesis by simp
qed

text \<open>
  C6, as stated, fails in its last part: when every search request answers with status
  500, the error \<open>No playlists found for this mood\<close> raised inside \<open>getPlaylistForMood\<close>
  is replaced by its handler, and the caller receives the generic error.
\<close>

theorem failed_searches_counterexample:
  "fetch worldAllFail 0 (searchRequest ''token'' ''happy'') = response500 \<and>
   fst (getPlaylistForMood_try worldAllFail ''Happy'' emptyTrace)
     = Inl (Error ''No playlists found for this mood'') \<and>
   fst (getPlaylistForMood worldAllFail ''Happy'' emptyTrace)
     = Inl (Error ''Failed to get playlist for mood'')"
proof -
  have tok: "getAccessToken worldAllFail (tokenCalls emptyTrace) = Some ''token''"
    "''token'' \<noteq> []"
    by (simp_all add: worldAllFail_def)
  have "fst (getPlaylistForMood_try worldAllFail ''Happy'' emptyTrace)
     = Inl (Error ''No playlists found for this mood'')"
    using tok search_worldAllFail
    by (simp add: getPlaylistForMood_try_def Let_def split_beta)
  moreover have "fst (getPlaylistForMood worldAllFail ''Happy'' emptyTrace)
          = Inl (Error ''Failed to get playlist for mood'')"
    using getPlaylistForMood_empty [OF tok search_worldAllFail] by simp
  ultimately show ?thesis by (simp add: worldAllFail_def)
qed

text \<open>
  C6 (amended). For a mood whose search terms are a list (an own key of the table, or a
  mood that names no inherited member), when every search request is answered, whatever
  its status: all (up to three) keywords are requested, and the result of the aggregation
  is the filtered, deduplicated concatenation of the items of the successful responses
  only. A failed request is not propagated: the entry point succeeds whenever candidates
  remain, and fails with the generic error \<open>Failed to get playlist for mood\<close> when none
  remain.
\<close>

theorem failed_search_is_absorbed:
  assumes "searchTermsOrDefault mood = Terms searchTerms"
    and "allResolve w token (take 3 searchTerms) tr"
    and "getAccessToken w (tokenCalls tr) = Some token" and "token \<noteq> []"
  shows "fst (searchPlaylistsByMood w mood token tr)
           = filterPlaylistsByQuality (removeDuplicatePlaylists
               (spec_merged w token (take 3 searchTerms) tr)) \<and>
         requests (snd (searchPlaylistsByMood w mood token tr))
           = requests tr @ map (searchRequest token) (take 3 searchTerms) \<and>
         (fst (searchPlaylistsByMood w mood token tr) = []
            \<longrightarrow> fst (getPlaylistForMood w mood tr) = Inl (Error ''Failed to get playlist for mood'')) \<and>
         (fst (searchPlaylistsByMood w mood token tr) \<noteq> []
            \<longrightarrow> (\<exists>playlistId. fst (getPlaylistForMood w mood tr) = Inr playlistId))"
proof -
  let ?tr1 = "tr\<lparr>tokenCalls := tokenCalls tr + 1\<rparr>"
  have same: "requests ?tr1 = requests tr" by simp
  have res1: "allResolve w token (take 3 searchTerms) ?tr1"
    using assms(2) allResolve_requests [OF same] by simp
  have fst_eq: "fst (searchPlaylistsByMood w mood token ?tr1) = fst (searchPlaylistsByMood w mood token tr)"
    using searchPlaylistsByMood_resolving [OF assms(1) res1]
      searchPlaylistsByMood_resolving [OF assms(1,2)]
      spec_merged_requests [OF same] by simp
  have "fst (getPlaylistForMood w mood tr) = Inl (Error ''Failed to get playlist for mood'')"
    if "fst (searchPlaylistsByMood w mood token tr) = []"
    using getPlaylistForMood_empty [OF assms(3,4)] that fst_eq by simp
  moreover have "\<exists>playlistId. fst (getPlaylistForMood w mood tr) = Inr playlistId"
    if "fst (searchPlaylistsByMood w mood token tr) \<noteq> []"
  proof -
    from that fst_eq have "fst (searchPlaylistsByMood w mood token ?tr1) \<noteq> []" by simp
    from getPlaylistForMood_nonempty [OF assms(3,4) this] show ?thesis by auto
  qed
  ultimately show ?thesis
    using searchPlaylistsByMood_resolving [OF assms(1,2)] by simp
qed

lemma search_worldSecondFails:
  "fst (searchPlaylistsByMood worldSecondFails ''Happy'' ''token''
          (emptyTrace\<lparr>tokenCalls := n\<rparr>)) = [candidate45, candidate30]"
  by (simp add: searchPlaylistsByMood_def happy_terms worldSecondFails_def response200_def
      response500_def emptyTrace_def Let_def removeDuplicatePlaylists_def
      filterPlaylistsByQuality_def candidate45_def candidate30_def examplePlaylist_def
      toLowerCase_def toLowerCaseChar_def)

theorem failed_search_is_absorbed_witness:
  "searchTermsOrDefault ''Happy''
     = Terms [''happy'', ''upbeat'', ''cheerful'', ''feel good'', ''positive vibes''] \<and>
   allResolve worldSecondFails ''token''
     (take 3 [''happy'', ''upbeat'', ''cheerful'', ''feel good'', ''positive vibes'']) emptyTrace \<and>
   getAccessToken worldSecondFails (tokenCalls emptyTrace) = Some ''token'' \<and>
   fetch worldSecondFails 1 (searchRequest ''token'' ''upbeat'') = response500 \<and>
   fst (searchPlaylistsByMood worldSecondFails ''Happy'' ''token'' emptyTrace)
     = [candidate45, candidate30] \<and>
   requests (snd (searchPlaylistsByMood worldSecondFails ''Happy'' ''token'' emptyTrace))
     = map (searchRequest ''token'') [''happy'', ''upbeat'', ''cheerful''] \<and>
   (\<exists>playlistId. fst (getPlaylistForMood worldSecondFails ''Happy'' emptyTrace) = Inr playlistId)"
proof -
  let ?terms = "[''happy'', ''upbeat'', ''cheerful'', ''feel good'', ''positive vibes'']"
  have res: "allResolve worldSecondFails ''token'' (take 3 ?terms) emptyTrace"
    by (simp add: allResolve_def worldSecondFails_def response200_def response500_def
        emptyTrace_def)
  have tok: "getAccessToken worldSecondFails (tokenCalls emptyTrace) = Some ''token''"
    "''token'' \<noteq> []"
    by (simp_all add: worldSecondFails_def)
  have merged: "spec_merged worldSecondFails ''token'' (take 3 ?terms) emptyTrace
      = [candidate45, candidate30]"
    by (simp add: spec_merged_def spec_contribution_def worldSecondFails_def
        response200_def response500_def emptyTrace_def)
  have kept: "filterPlaylistsByQuality (removeDuplicatePlaylists [candidate45, candidate30])
      = [candidate45, candidate30]"
    by (simp add: filterPlaylistsByQuality_def removeDuplicatePlaylists_def candidate45_def
        candidate30_def examplePlaylist_def toLowerCase_def toLowerCaseChar_def)
  from failed_search_is_absorbed [OF happy_terms res tok] merged kept res tok(1) happy_terms
  show ?thesis by (simp add: worldSecondFails_def emptyTrace_def)
qed

section \<open>Several recommendations\<close>

text \<open>
  With candidates and a non-negative count, \<open>getMultiplePlaylistsForMood\<close> returns the
  identifiers of the first \<open>count\<close> candidates in descending score order.
\<close>

lemma getMultiplePlaylistsForMood_top:
  assumes "getAccessToken w (tokenCalls tr) = Some token" and "token \<noteq> []"
    and "fst (searchPlaylistsByMood w mood token (tr\<lparr>tokenCalls := tokenCalls tr + 1\<rparr>)) = playlists"
    and "playlists \<noteq> []"
    and "count = (case countArg of None \<Rightarrow> 3 | Some c \<Rightarrow> c)" and "0 \<le> count"
  shows "\<exists>top. fst (getMultiplePlaylistsForMood w mood countArg tr) = Inr (map (\<lambda>item. id_pl (playlist item)) top) \<and>
           top = take (nat count) (js_sort (\<lambda>a b. score b - score a) (scorePlaylists playlists mood)) \<and>
           length top = min (nat count) (length playlists) \<and>
           sorted_wrt (\<lambda>a b. score b \<le> score a) top \<and>
           (\<forall>a \<in> set top. \<forall>b \<in> set (drop (nat count)
               (js_sort (\<lambda>a b. score b - score a) (scorePlaylists playlists mood))). score b \<le> score a)"
proof -
  let ?sorted = "js_sort (\<lambda>a b. score b - score a) (scorePlaylists playlists mood)"
  have len: "length ?sorted = length playlists"
    by (simp add: length_js_sort scorePlaylists_def)
  have sl: "slice0 (min count (int (length ?sorted))) ?sorted = take (nat count) ?sorted"
    using assms(6) by (simp add: slice0_def min_def)
  have res: "fst (getMultiplePlaylistsForMood w mood countArg tr)
      = Inr (map (\<lambda>item. id_pl (playlist item)) (take (nat count) ?sorted))"
    using assms(1-4) sl
    by (simp add: getMultiplePlaylistsForMood_def Let_def split_beta assms(5))
  have desc: "sorted_wrt (\<lambda>a b. score b \<le> score a) (take (nat count) ?sorted @ drop (nat count) ?sorted)"
    using descending_js_sort [of "scorePlaylists playlists mood"] by simp
  then have "sorted_wrt (\<lambda>a b. score b \<le> score a) (take (nat count) ?sorted)"
    and "\<forall>a \<in> set (take (nat count) ?sorted). \<forall>b \<in> set (drop (nat count) ?sorted). score b \<le> score a"
    unfolding sorted_wrt_append by blast+
  with res len show ?thesis by simp
qed

text \<open>
  Without candidates, \<open>getMultiplePlaylistsForMood\<close> hands over to \<open>getPlaylistForMood\<close>,
  which asks for a token and searches again.
\<close>

lemma getMultiplePlaylistsForMood_fallback:
  assumes "getAccessToken w (tokenCalls tr) = Some token" and "token \<noteq> []"
    and "searchPlaylistsByMood w mood token (tr\<lparr>tokenCalls := tokenCalls tr + 1\<rparr>) = ([], tr2)"
  shows "fst (getMultiplePlaylistsForMood w mood countArg tr) =
           (case fst (getPlaylistForMood w mood tr2) of
              Inl e \<Rightarrow> Inl e
            | Inr singlePlaylist \<Rightarrow> Inr [singlePlaylist])"
  using assms
  by (simp add: getMultiplePlaylistsForMood_def Let_def split: prod.splits sum.splits)

text \<open>
  In an environment that answers equal requests equally, the fallback of
  \<open>getMultiplePlaylistsForMood\<close> repeats the search that has just come back empty.
\<close>

lemma searchLoop_stationary:
  assumes "\<And>n m req. fetch w n req = fetch w m req"
  shows "fst (searchLoop w accessToken terms allPlaylists tr)
       = fst (searchLoop w accessToken terms allPlaylists tr')"
proof (induction terms arbitrary: allPlaylists tr tr')
  case Nil
  show ?case by simp
next
  case (Cons t terms)
  let ?req = "\<lparr>query = t, bearer = accessToken\<rparr>"
  have same: "fetch w (length (requests tr)) ?req = fetch w (length (requests tr')) ?req"
    by (rule assms)
  show ?case
  proof (cases "fetch w (length (requests tr')) ?req")
    case Rejects
    with same show ?thesis by (simp add: Let_def)
  next
    case (Resolves response)
    with same Cons.IH show ?thesis by (simp add: Let_def)
  qed
qed

lemma searchPlaylistsByMood_stationary:
  assumes "\<And>n m req. fetch w n req = fetch w m req"
  shows "fst (searchPlaylistsByMood w mood accessToken tr)
       = fst (searchPlaylistsByMood w mood accessToken tr')"
proof (cases "searchTermsOrDefault mood")
  case NotAnArray
  then show ?thesis by (simp add: searchPlaylistsByMood_def)
next
  case (Terms searchTerms)
  have "fst (searchLoop w accessToken (take 3 searchTerms) [] tr)
      = fst (searchLoop w accessToken (take 3 searchTerms) [] tr')"
    using assms by (rule searchLoop_stationary)
  with Terms show ?thesis
    by (auto simp: searchPlaylistsByMood_def Let_def split: prod.splits option.splits)
qed

lemma getMultiplePlaylistsForMood_fallback_stationary:
  assumes "\<And>n m req. fetch w n req = fetch w m req"
    and "\<And>n. getAccessToken w n = Some token" and "token \<noteq> []"
    and "fst (searchPlaylistsByMood w mood token (tr\<lparr>tokenCalls := tokenCalls tr + 1\<rparr>)) = []"
  shows "fst (getMultiplePlaylistsForMood w mood countArg tr)
       = Inl (Error ''Failed to get playlist for mood'')"
proof -
  let ?tr1 = "tr\<lparr>tokenCalls := tokenCalls tr + 1\<rparr>"
  let ?tr2 = "snd (searchPlaylistsByMood w mood token ?tr1)"
  have again: "fst (searchPlaylistsByMood w mood token (?tr2\<lparr>tokenCalls := tokenCalls ?tr2 + 1\<rparr>)) = []"
    using searchPlaylistsByMood_stationary [OF assms(1)] assms(4) by metis
  have "fst (getPlaylistForMood w mood ?tr2) = Inl (Error ''Failed to get playlist for mood'')"
    using getPlaylistForMood_empty [OF assms(2) assms(3) again] by simp
  with assms(2-4) show ?thesis
    by (simp add: getMultiplePlaylistsForMood_def Let_def split_beta split: prod.splits sum.splits)
qed

lemma sorted_worldSecondFails:
  "js_sort (\<lambda>a b. score b - score a) (scorePlaylists [candidate45, candidate30] ''Happy'')
     = [\<lparr>playlist = candidate45, score = 45\<rparr>, \<lparr>playlist = candidate30, score = 30\<rparr>]"
  by (simp add: js_sort_def scorePlaylists_def score_candidate45 score_candidate30)

text \<open>
  C7, as stated, fails. For the mood \<open>Happy\<close>, the default count and a catalogue that
  answers every search with an empty page, the search yields no candidates and the call
  fails with the error \<open>Failed to get playlist for mood\<close>; it does not return a
  single-candidate sequence. And for a negative count the length of the result is not
  the minimum of the count and the number of candidates: with two candidates and the
  count -1, one identifier is returned.
\<close>

theorem getMultiplePlaylistsForMood_fallback_counterexample:
  "fst (searchPlaylistsByMood worldNothingFound ''Happy'' ''token''
          (emptyTrace\<lparr>tokenCalls := tokenCalls emptyTrace + 1\<rparr>)) = [] \<and>
   fst (getMultiplePlaylistsForMood worldNothingFound ''Happy'' None emptyTrace)
     = Inl (Error ''Failed to get playlist for mood'') \<and>
   fst (searchPlaylistsByMood worldSecondFails ''Happy'' ''token''
          (emptyTrace\<lparr>tokenCalls := tokenCalls emptyTrace + 1\<rparr>)) = [candidate45, candidate30] \<and>
   fst (getMultiplePlaylistsForMood worldSecondFails ''Happy'' (Some (- 1)) emptyTrace)
     = Inr [''p45'']"
proof -
  have st: "\<And>n m req. fetch worldNothingFound n req = fetch worldNothingFound m req"
    by (simp add: worldNothingFound_def)
  have tok: "\<And>n. getAccessToken worldNothingFound n = Some ''token''"
    by (simp add: worldNothingFound_def)
  have ne: "''token'' \<noteq> []" by simp
  have found: "fst (searchPlaylistsByMood worldSecondFails ''Happy'' ''token''
          (emptyTrace\<lparr>tokenCalls := tokenCalls emptyTrace + 1\<rparr>)) = [candidate45, candidate30]"
    using search_worldSecondFails [of "tokenCalls emptyTrace + 1"] by simp
  have tok2: "getAccessToken worldSecondFails (tokenCalls emptyTrace) = Some ''token''"
    by (simp add: worldSecondFails_def)
  have "fst (getMultiplePlaylistsForMood worldSecondFails ''Happy'' (Some (- 1)) emptyTrace)
     = Inr [id_pl candidate45]"
    using found tok2
    by (simp add: getMultiplePlaylistsForMood_def Let_def split_beta sorted_worldSecondFails
        slice0_def)
  moreover have "id_pl candidate45 = ''p45''"
    by (simp add: candidate45_def examplePlaylist_def)
  ultimately have "fst (getMultiplePlaylistsForMood worldSecondFails ''Happy'' (Some (- 1)) emptyTrace)
     = Inr [''p45'']"
    by simp
  with getMultiplePlaylistsForMood_fallback_stationary [OF st tok ne search_worldNothingFound]
    found search_worldNothingFound
  show ?thesis by simp
qed

text \<open>
  C7 (amended). With a token available and a non-negative count \<open>K\<close> (3 when omitted):
  when the search yields candidates, \<open>getMultiplePlaylistsForMood\<close> returns the identifiers
  of the first \<open>K\<close> candidates of the descending score order, so the result has length
  \<open>min K n\<close>, its scores descend, and no candidate left out scores higher than one
  returned. When the search yields no candidates, it hands over to \<open>getPlaylistForMood\<close>,
  which searches again: the result is the one-element sequence of the identifier that
  call returns, or the error that call raises; it is never the empty sequence.
\<close>

theorem getMultiplePlaylistsForMood_contract:
  assumes "getAccessToken w (tokenCalls tr) = Some token" and "token \<noteq> []"
    and "searchPlaylistsByMood w mood token (tr\<lparr>tokenCalls := tokenCalls tr + 1\<rparr>) = (playlists, tr2)"
    and "count = (case countArg of None \<Rightarrow> 3 | Some c \<Rightarrow> c)" and "0 \<le> count"
  shows "(playlists \<noteq> [] \<longrightarrow>
           (\<exists>top. fst (getMultiplePlaylistsForMood w mood countArg tr)
                     = Inr (map (\<lambda>item. id_pl (playlist item)) top) \<and>
              top = take (nat count)
                      (js_sort (\<lambda>a b. score b - score a) (scorePlaylists playlists mood)) \<and>
              length top = min (nat count) (length playlists) \<and>
              sorted_wrt (\<lambda>a b. score b \<le> score a) top \<and>
              (\<forall>a \<in> set top. playlist a \<in> set playlists \<and>
                               score a = calculatePlaylistScore (playlist a) mood) \<and>
              (\<forall>a \<in> set top. \<forall>b \<in> set (drop (nat count)
                  (js_sort (\<lambda>a b. score b - score a) (scorePlaylists playlists mood))).
                    score b \<le> score a))) \<and>
         (playlists = [] \<longrightarrow>
            fst (getMultiplePlaylistsForMood w mood countArg tr) =
              (case fst (getPlaylistForMood w mood tr2) of
                 Inl e \<Rightarrow> Inl e
               | Inr singlePlaylist \<Rightarrow> Inr [singlePlaylist]) \<and>
            fst (getMultiplePlaylistsForMood w mood countArg tr) \<noteq> Inr [])"
proof (cases "playlists = []")
  case True
  with assms(3) have s: "searchPlaylistsByMood w mood token (tr\<lparr>tokenCalls := tokenCalls tr + 1\<rparr>) = ([], tr2)"
    by simp
  have fb: "fst (getMultiplePlaylistsForMood w mood countArg tr) =
              (case fst (getPlaylistForMood w mood tr2) of
                 Inl e \<Rightarrow> Inl e
               | Inr singlePlaylist \<Rightarrow> Inr [singlePlaylist])"
    by (rule getMultiplePlaylistsForMood_fallback [OF assms(1,2) s])
  then have "fst (getMultiplePlaylistsForMood w mood countArg tr) \<noteq> Inr []"
    by (simp split: sum.splits)
  with True fb show ?thesis by simp
next
  case False
  from assms(3) have f: "fst (searchPlaylistsByMood w mood token (tr\<lparr>tokenCalls := tokenCalls tr + 1\<rparr>)) = playlists"
    by simp
  from getMultiplePlaylistsForMood_top [OF assms(1,2) f False assms(4,5)]
  obtain top where top: "fst (getMultiplePlaylistsForMood w mood countArg tr)
        = Inr (map (\<lambda>item. id_pl (playlist item)) top)"
      "top = take (nat count) (js_sort (\<lambda>a b. score b - score a) (scorePlaylists playlists mood))"
      "length top = min (nat count) (length playlists)"
      "sorted_wrt (\<lambda>a b. score b \<le> score a) top"
      "\<forall>a \<in> set top. \<forall>b \<in> set (drop (nat count)
          (js_sort (\<lambda>a b. score b - score a) (scorePlaylists playlists mood))). score b \<le> score a"
    by blast
  have "\<forall>a \<in> set top. playlist a \<in> set playlists \<and> score a = calculatePlaylistScore (playlist a) mood"
  proof
    fix a assume "a \<in> set top"
    with top(2) have "a \<in> set (js_sort (\<lambda>a b. score b - score a) (scorePlaylists playlists mood))"
      by (auto dest: in_set_takeD)
    then have "a \<in> set (scorePlaylists playlists mood)" by (simp add: set_js_sort)
    then show "playlist a \<in> set playlists \<and> score a = calculatePlaylistScore (playlist a) mood"
      by (auto simp: scorePlaylists_def)
  qed
  with top False show ?thesis by blast
qed

theorem getMultiplePlaylistsForMood_contract_witness:
  "getAccessToken worldSecondFails (tokenCalls emptyTrace) = Some ''token'' \<and>
   fst (searchPlaylistsByMood worldSecondFails ''Happy'' ''token''
          (emptyTrace\<lparr>tokenCalls := tokenCalls emptyTrace + 1\<rparr>)) = [candidate45, candidate30] \<and>
   fst (getMultiplePlaylistsForMood worldSecondFails ''Happy'' None emptyTrace)
     = Inr [''p45'', ''p30''] \<and>
   getAccessToken worldNothingFound (tokenCalls emptyTrace) = Some ''token'' \<and>
   fst (searchPlaylistsByMood worldNothingFound ''Happy'' ''token''
          (emptyTrace\<lparr>tokenCalls := tokenCalls emptyTrace + 1\<rparr>)) = [] \<and>
   fst (getMultiplePlaylistsForMood worldNothingFound ''Happy'' None emptyTrace) \<noteq> Inr []"
proof -
  have ne: "''token'' \<noteq> []" by simp
  have c: "(3::int) = (case None of None \<Rightarrow> 3 | Some c \<Rightarrow> c)" "(0::int) \<le> 3" by simp_all
  have tok1: "getAccessToken worldSecondFails (tokenCalls emptyTrace) = Some ''token''"
    by (simp add: worldSecondFails_def)
  have found: "fst (searchPlaylistsByMood worldSecondFails ''Happy'' ''token''
          (emptyTrace\<lparr>tokenCalls := tokenCalls emptyTrace + 1\<rparr>)) = [candidate45, candidate30]"
    using search_worldSecondFails [of "tokenCalls emptyTrace + 1"] by simp
  obtain tr2 where s1: "searchPlaylistsByMood worldSecondFails ''Happy'' ''token''
          (emptyTrace\<lparr>tokenCalls := tokenCalls emptyTrace + 1\<rparr>) = ([candidate45, candidate30], tr2)"
    using found by (metis prod.collapse)
  have names: "id_pl candidate45 = ''p45''" "id_pl candidate30 = ''p30''"
    by (simp_all add: candidate45_def candidate30_def examplePlaylist_def)
  have ids: "map (\<lambda>item. id_pl (playlist item))
        (take (nat 3) (js_sort (\<lambda>a b. score b - score a)
           (scorePlaylists [candidate45, candidate30] ''Happy''))) = [''p45'', ''p30'']"
    by (simp add: sorted_worldSecondFails names)
  have ne2: "[candidate45, candidate30] \<noteq> []" by simp
  from getMultiplePlaylistsForMood_contract [OF tok1 ne s1 c, THEN conjunct1, THEN mp, OF ne2]
  obtain top where
    "fst (getMultiplePlaylistsForMood worldSecondFails ''Happy'' None emptyTrace)
       = Inr (map (\<lambda>item. id_pl (playlist item)) top)"
    "top = take (nat 3) (js_sort (\<lambda>a b. score b - score a)
             (scorePlaylists [candidate45, candidate30] ''Happy''))"
    by (elim exE conjE)
  with ids have first: "fst (getMultiplePlaylistsForMood worldSecondFails ''Happy'' None emptyTrace)
     = Inr [''p45'', ''p30'']"
    by simp
  have tok2: "getAccessToken worldNothingFound (tokenCalls emptyTrace) = Some ''token''"
    by (simp add: worldNothingFound_def)
  obtain tr3 where s2: "searchPlaylistsByMood worldNothingFound ''Happy'' ''token''
          (emptyTrace\<lparr>tokenCalls := tokenCalls emptyTrace + 1\<rparr>) = ([], tr3)"
    using search_worldNothingFound [of "emptyTrace\<lparr>tokenCalls := tokenCalls emptyTrace + 1\<rparr>"]
    by (metis prod.collapse)
  from getMultiplePlaylistsForMood_contract [OF tok2 ne s2 c, THEN conjunct2, THEN mp, OF refl]
  have second: "fst (getMultiplePlaylistsForMood worldNothingFound ''Happy'' None emptyTrace) \<noteq> Inr []"
    by (rule conjunct2)
  from first second tok1 tok2 found search_worldNothingFound show ?thesis by simp
qed

end
